theory Spec2Isabelle
  imports Main
begin

section \<open>Requests, responses, sessions\<close>

text \<open>
  The admin authentication engine of the Remix package (authenticate.ts), its
  authorization-code strategy (auth-code-flow.ts), the after-auth hook trigger and the
  login helper (login.ts) are embedded as state-passing functions. A thrown value of the
  source is the left summand of the result; the state holds the session storage and the
  ordered record of the calls made to collaborators that issue responses, store sessions
  or run the hook. Logger calls have no effect on any result and are left out.
\<close>

type_synonym header_list = "(string \<times> string) list"

record response =
  status :: nat
  statusText :: string
  body :: "string option"
  headers :: header_list

text \<open>\<^verbatim>\<open>redirect(url)\<close> of the Remix runtime: status 302 with a Location header.\<close>

definition redirect :: "string \<Rightarrow> response" where
  "redirect url = \<lparr>status = 302, statusText = [], body = None, headers = [(''Location'', url)]\<rparr>"

text \<open>\<^verbatim>\<open>new Response(body, {status, statusText})\<close>.\<close>

definition newResponse :: "string option \<Rightarrow> nat \<Rightarrow> string \<Rightarrow> response" where
  "newResponse b s t = \<lparr>status = s, statusText = t, body = b, headers = []\<rparr>"

text \<open>
  A request as the handlers read it: the path and query of \<^verbatim>\<open>new URL(request.url)\<close>,
  the headers under the names the source asks for, and the parsed form body
  (\<open>None\<close> when \<^verbatim>\<open>request.formData()\<close> rejects).
\<close>

record request =
  requestMethod :: string
  pathname :: string
  searchParams :: "(string \<times> string) list"
  requestHeaders :: "(string \<times> string) list"
  formData :: "(string \<times> string) list option"

definition searchParams_get :: "request \<Rightarrow> string \<Rightarrow> string option" where
  "searchParams_get r k = map_of (searchParams r) k"

definition headers_get :: "request \<Rightarrow> string \<Rightarrow> string option" where
  "headers_get r k = map_of (requestHeaders r) k"

text \<open>Truthiness of a \<^verbatim>\<open>string | null | undefined\<close> value: absent and empty are falsy.\<close>

fun truthy :: "string option \<Rightarrow> bool" where
  "truthy None = False"
| "truthy (Some s) = (s \<noteq> [])"

record session =
  session_id :: string
  shop :: string
  isOnline :: bool
  scope :: "string list"
  expires :: "nat option"

record jwtPayload =
  dest :: string
  sub :: string

datatype error =
    ShopifyError
  | CookieNotFound
  | InvalidHmacError
  | InvalidOAuthError
  | HttpResponseError nat string
  | GraphqlQueryError
  | TypeError
  | OtherError string

text \<open>
  What a \<^verbatim>\<open>throw\<close> or a rejected promise can carry: a \<^verbatim>\<open>Response\<close>, an \<^verbatim>\<open>Error\<close> object,
  \<^verbatim>\<open>null\<close> or \<^verbatim>\<open>undefined\<close> (a promise rejected without a reason), or another value that
  is not an \<^verbatim>\<open>Error\<close>.
\<close>

datatype thrown = Resp response | Err error | Nullish | NonError string

section \<open>Configuration and collaborators\<close>

record authPaths =
  path :: string
  callbackPath :: string
  loginPath :: string
  patchSessionTokenPath :: string
  exitIframePath :: string

record config =
  isEmbeddedApp :: bool
  useOnlineTokens :: bool
  scopes :: "string list"
  appUrl :: string
  apiKey :: string
  auth :: authPaths
  afterAuth :: "(session \<Rightarrow> thrown option) option"

text \<open>
  The API library object \<^verbatim>\<open>api\<close>. Its functions are not among the source files and
  are parameters: the shop and host sanitizers (\<open>None\<close> for the null result; the host
  sanitizer parses the decoded host as a URL and may throw), the session
  id schemes, the cookie lookup \<^verbatim>\<open>session.getCurrentId\<close>, the token exchange
  \<^verbatim>\<open>auth.callback\<close> (which throws or yields the session and the response headers), the
  authorize URL that \<^verbatim>\<open>auth.begin\<close> redirects to, the GraphQL probe of
  \<^verbatim>\<open>testSession\<close> (\<open>Some e\<close> when the query throws \<open>e\<close>) and the clock.
\<close>

record api =
  api_isEmbeddedApp :: bool
  sanitizeShop :: "string option \<Rightarrow> string option"
  sanitizeHost :: "string option \<Rightarrow> error + string option"
  getOfflineId :: "string \<Rightarrow> string"
  getJwtSessionId :: "string \<Rightarrow> string \<Rightarrow> string"
  getCurrentId :: "bool \<Rightarrow> request \<Rightarrow> string option"
  auth_callback :: "request \<Rightarrow> thrown + (session \<times> header_list)"
  authorizeUrl :: "string option \<Rightarrow> bool \<Rightarrow> string"
  graphqlQuery :: "session \<Rightarrow> error option"
  now :: nat

text \<open>
  The helper modules of the package (\<^verbatim>\<open>../helpers\<close>) are not among the source files.
  What the code needs from them is taken as parameters: the early responses of
  the bot and preflight guards, the CORS decorator, the session token readers and
  validator, the hostname of a URL string (\<open>None\<close> when \<^verbatim>\<open>new URL\<close> throws), the query
  serialisation of a URL, and the responses that the page and redirect helpers build.
\<close>

record helpers =
  rejectBotRequest :: "request \<Rightarrow> response option"
  respondToOptionsRequest :: "request \<Rightarrow> response option"
  ensureCORSHeaders :: "request \<Rightarrow> response \<Rightarrow> response"
  getSessionTokenHeader :: "request \<Rightarrow> string option"
  validateSessionToken :: "string \<Rightarrow> response + jwtPayload"
  urlHostname :: "string \<Rightarrow> string option"
  urlSearch :: "(string \<times> string) list \<Rightarrow> string"
  exitIframeQuery :: "request \<Rightarrow> string option \<Rightarrow> string"
  renderAppBridgeResponse :: "request \<Rightarrow> string option option \<Rightarrow> response"
  shopifyOrAppRootUrl :: "request \<Rightarrow> string"
  authPageResponse :: "request \<Rightarrow> string option \<Rightarrow> response"

record params =
  api :: api
  config :: config
  helpers :: helpers

section \<open>State and control flow\<close>

datatype event =
    EvBeginAuth "string option" bool
  | EvExitIframe "string option"
  | EvStoreSession session
  | EvAfterAuth session
  | EvAuthPage "string option"
  | EvShopifyOrAppRoot
  | EvAppBridge

record state =
  sessionStorage :: "string \<rightharpoonup> session"
  trace :: "event list"

type_synonym 'a outcome = "(thrown + 'a) \<times> state"

definition succeed :: "'a \<Rightarrow> state \<Rightarrow> 'a outcome" where
  "succeed a st = (Inr a, st)"

definition throw :: "thrown \<Rightarrow> state \<Rightarrow> 'a outcome" where
  "throw t st = (Inl t, st)"

definition bnd :: "(state \<Rightarrow> 'a outcome) \<Rightarrow> ('a \<Rightarrow> state \<Rightarrow> 'b outcome) \<Rightarrow> state \<Rightarrow> 'b outcome" where
  "bnd m f st = (case m st of (Inl t, st') \<Rightarrow> (Inl t, st') | (Inr a, st') \<Rightarrow> f a st')"

definition try_catch :: "(state \<Rightarrow> 'a outcome) \<Rightarrow> (thrown \<Rightarrow> state \<Rightarrow> 'a outcome) \<Rightarrow> state \<Rightarrow> 'a outcome" where
  "try_catch m h st = (case m st of (Inl t, st') \<Rightarrow> h t st' | (Inr a, st') \<Rightarrow> (Inr a, st'))"

definition emit :: "event \<Rightarrow> state \<Rightarrow> unit outcome" where
  "emit e st = (Inr (), st\<lparr>trace := trace st @ [e]\<rparr>)"

definition lift :: "thrown + 'a \<Rightarrow> state \<Rightarrow> 'a outcome" where
  "lift r st = (r, st)"

text \<open>The status of the response an outcome ends with, when it ends with a thrown response.\<close>

definition thrownStatus :: "'a outcome \<Rightarrow> nat option" where
  "thrownStatus r = (case fst r of Inl (Resp x) \<Rightarrow> Some (status x) | _ \<Rightarrow> None)"

section \<open>Session storage and the session predicate\<close>

text \<open>
  \<^verbatim>\<open>config.sessionStorage\<close> is the keyed record store of the spec: a map from session ids
  to sessions, read by \<^verbatim>\<open>loadSession\<close> and overwritten under the session's own id by
  \<^verbatim>\<open>storeSession\<close>.
\<close>

definition loadSession :: "string \<Rightarrow> state \<Rightarrow> session option outcome" where
  "loadSession sid st = (Inr (sessionStorage st sid), st)"

definition storeSession :: "session \<Rightarrow> state \<Rightarrow> unit outcome" where
  "storeSession s st =
     (Inr (), st\<lparr>sessionStorage := (sessionStorage st)(session_id s \<mapsto> s),
                 trace := trace st @ [EvStoreSession s]\<rparr>)"

text \<open>
  Modelled from the spec: \<^verbatim>\<open>Session.isActive\<close> belongs to the API library and is missing
  from the source files. The spec gives it as false whenever the clock has reached the
  expiry or the required scopes are not all among the granted ones, and true otherwise.
\<close>

definition isActive :: "nat \<Rightarrow> string list \<Rightarrow> session \<Rightarrow> bool" where
  "isActive clock required s =
     (\<not> (case expires s of None \<Rightarrow> False | Some e \<Rightarrow> e \<le> clock) \<and> set required \<subseteq> set (scope s))"

section \<open>Helpers that end the request\<close>

text \<open>
  Modelled from the spec: \<^verbatim>\<open>beginAuth\<close> is missing from the source files. The spec has
  it construct and throw a redirect to the platform's authorization URL for the tenant and
  the online/offline intent, never returning normally.
\<close>

definition beginAuth :: "params \<Rightarrow> request \<Rightarrow> bool \<Rightarrow> string option \<Rightarrow> state \<Rightarrow> 'a outcome" where
  "beginAuth p rq online sh =
     bnd (emit (EvBeginAuth sh online))
       (\<lambda>_. throw (Resp (redirect (authorizeUrl (api p) sh online))))"

text \<open>
  Modelled from the spec: \<^verbatim>\<open>redirectWithExitIframe\<close> is missing from the source files.
  The spec has it redirect through the exit-iframe page, with the destination carried in
  the query; it never returns normally.
\<close>

definition redirectWithExitIframe :: "params \<Rightarrow> request \<Rightarrow> string option \<Rightarrow> state \<Rightarrow> 'a outcome" where
  "redirectWithExitIframe p rq sh =
     bnd (emit (EvExitIframe sh))
       (\<lambda>_. throw (Resp (redirect (exitIframePath (auth (config p)) @ ''?'' @ exitIframeQuery (helpers p) rq sh))))"

text \<open>
  Modelled from the spec: \<^verbatim>\<open>redirectToShopifyOrAppRoot\<close> is missing from the source
  files. The spec has it redirect to the platform's admin surface or the app's root,
  carrying forward the response headers of the exchange; it never returns normally.
\<close>

definition redirectToShopifyOrAppRoot :: "params \<Rightarrow> request \<Rightarrow> header_list \<Rightarrow> state \<Rightarrow> 'a outcome" where
  "redirectToShopifyOrAppRoot p rq hs =
     bnd (emit EvShopifyOrAppRoot)
       (\<lambda>_. throw (Resp ((redirect (shopifyOrAppRootUrl (helpers p) rq))\<lparr>headers := (''Location'', shopifyOrAppRootUrl (helpers p) rq) # hs\<rparr>)))"

text \<open>
  Modelled from the spec: \<^verbatim>\<open>redirectToAuthPage\<close> is missing from the source files. The
  spec has the engine send the request to OAuth begin for the tenant when the session is
  absent or inactive; the response it builds is a parameter and it never returns normally.
\<close>

definition redirectToAuthPage :: "params \<Rightarrow> request \<Rightarrow> string option \<Rightarrow> state \<Rightarrow> 'a outcome" where
  "redirectToAuthPage p rq sh =
     bnd (emit (EvAuthPage sh))
       (\<lambda>_. throw (Resp (authPageResponse (helpers p) rq sh)))"

text \<open>\<^verbatim>\<open>renderAppBridge\<close> returns the page response that its callers throw.\<close>

definition renderAppBridge :: "params \<Rightarrow> request \<Rightarrow> string option option \<Rightarrow> state \<Rightarrow> response outcome" where
  "renderAppBridge p rq target =
     bnd (emit EvAppBridge) (\<lambda>_. succeed (renderAppBridgeResponse (helpers p) rq target))"

section \<open>trigger-after-auth-hook.ts\<close>

definition triggerAfterAuthHook :: "params \<Rightarrow> session \<Rightarrow> request \<Rightarrow> state \<Rightarrow> unit outcome" where
  "triggerAfterAuthHook p s rq =
     (case afterAuth (config p) of
        None \<Rightarrow> succeed ()
      | Some hook \<Rightarrow>
          bnd (emit (EvAfterAuth s))
            (\<lambda>_. case hook s of None \<Rightarrow> succeed () | Some t \<Rightarrow> throw t))"

section \<open>auth-code-flow.ts\<close>

text \<open>
  A session context is the session with the token payload that authorised it (absent
  outside embedded flows); \<open>None\<close> is the undefined context. The tenant handed on by
  \<^verbatim>\<open>getAuthenticatedSession\<close> is null when the query has no shop.
\<close>

type_synonym sessionContext = "session \<times> jwtPayload option"

definition manageAccessToken ::
  "params \<Rightarrow> sessionContext option \<Rightarrow> string option \<Rightarrow> request \<Rightarrow> state \<Rightarrow> sessionContext option outcome" where
  "manageAccessToken p sessionContext sh rq =
     bnd (case sessionContext of
            None \<Rightarrow> redirectToAuthPage p rq sh
          | Some (s, tok) \<Rightarrow>
              if \<not> isActive (now (api p)) (scopes (config p)) s then redirectToAuthPage p rq sh
              else succeed ())
       (\<lambda>_. succeed sessionContext)"

definition handleBouncePageRoute :: "params \<Rightarrow> request \<Rightarrow> state \<Rightarrow> unit outcome" where
  "handleBouncePageRoute p rq =
     (if pathname rq = patchSessionTokenPath (auth (config p))
      then bnd (renderAppBridge p rq None) (\<lambda>r. throw (Resp r))
      else succeed ())"

definition handleExitIframeRoute :: "params \<Rightarrow> request \<Rightarrow> state \<Rightarrow> unit outcome" where
  "handleExitIframeRoute p rq =
     (if pathname rq = exitIframePath (auth (config p))
      then bnd (renderAppBridge p rq (Some (searchParams_get rq ''exitIframe''))) (\<lambda>r. throw (Resp r))
      else succeed ())"

definition handleAuthBeginRequest :: "params \<Rightarrow> request \<Rightarrow> string \<Rightarrow> state \<Rightarrow> 'a outcome" where
  "handleAuthBeginRequest p rq sh =
     (if isEmbeddedApp (config p) \<and> headers_get rq ''Sec-Fetch-Dest'' = Some ''iframe''
      then redirectWithExitIframe p rq (Some sh)
      else beginAuth p rq False (Some sh))"

text \<open>
  \<^verbatim>\<open>oauthCallbackError\<close> reads \<^verbatim>\<open>error.message\<close> for its log line before it classifies the
  error: on \<^verbatim>\<open>null\<close> or \<^verbatim>\<open>undefined\<close> that read throws a \<^verbatim>\<open>TypeError\<close>. Any other value
  that is not one of the three error classes falls through to the 500 response.
\<close>

definition oauthCallbackError :: "params \<Rightarrow> thrown \<Rightarrow> request \<Rightarrow> string \<Rightarrow> state \<Rightarrow> response outcome" where
  "oauthCallbackError p t rq sh =
     (case t of
        Nullish \<Rightarrow> throw (Err TypeError)
      | Err e \<Rightarrow>
          if e = CookieNotFound then handleAuthBeginRequest p rq sh
          else if e = InvalidHmacError \<or> e = InvalidOAuthError
          then succeed (newResponse None 400 ''Invalid OAuth Request'')
          else succeed (newResponse None 500 ''Internal Server Error'')
      | _ \<Rightarrow> succeed (newResponse None 500 ''Internal Server Error''))"

text \<open>The body of the \<^verbatim>\<open>try\<close> block of \<^verbatim>\<open>handleAuthCallbackRequest\<close>.\<close>

definition oauthCallbackTry :: "params \<Rightarrow> request \<Rightarrow> string \<Rightarrow> state \<Rightarrow> 'a outcome" where
  "oauthCallbackTry p rq sh =
     bnd (lift (auth_callback (api p) rq))
       (\<lambda>(s, responseHeaders).
          bnd (storeSession s)
            (\<lambda>_. bnd (if useOnlineTokens (config p) \<and> \<not> isOnline s
                       then beginAuth p rq True (Some sh) else succeed ())
              (\<lambda>_. bnd (triggerAfterAuthHook p s rq)
                (\<lambda>_. redirectToShopifyOrAppRoot p rq responseHeaders))))"

definition handleAuthCallbackRequest :: "params \<Rightarrow> request \<Rightarrow> string \<Rightarrow> state \<Rightarrow> 'a outcome" where
  "handleAuthCallbackRequest p rq sh =
     try_catch (oauthCallbackTry p rq sh)
       (\<lambda>t. case t of
               Resp r \<Rightarrow> throw (Resp r)
             | _ \<Rightarrow> bnd (oauthCallbackError p t rq sh) (\<lambda>r. throw (Resp r)))"

definition handleOAuthRoutes :: "params \<Rightarrow> request \<Rightarrow> state \<Rightarrow> unit outcome" where
  "handleOAuthRoutes p rq =
     (let isAuthRequest = (pathname rq = path (auth (config p)));
          isAuthCallbackRequest = (pathname rq = callbackPath (auth (config p)))
      in if \<not> isAuthRequest \<and> \<not> isAuthCallbackRequest then succeed ()
         else case sanitizeShop (api p) (searchParams_get rq ''shop'') of
                None \<Rightarrow> throw (Resp (newResponse (Some ''Shop param is invalid'') 400 []))
              | Some sh \<Rightarrow>
                  if sh = [] then throw (Resp (newResponse (Some ''Shop param is invalid'') 400 []))
                  else if isAuthRequest then handleAuthBeginRequest p rq sh
                  else handleAuthCallbackRequest p rq sh)"

definition handleRoutes :: "params \<Rightarrow> request \<Rightarrow> state \<Rightarrow> unit outcome" where
  "handleRoutes p rq =
     bnd (handleBouncePageRoute p rq)
       (\<lambda>_. bnd (handleExitIframeRoute p rq)
         (\<lambda>_. handleOAuthRoutes p rq))"

section \<open>authenticate.ts\<close>

definition validateUrlParams :: "params \<Rightarrow> request \<Rightarrow> state \<Rightarrow> unit outcome" where
  "validateUrlParams p rq =
     (if isEmbeddedApp (config p)
      then (if \<not> truthy (sanitizeShop (api p) (searchParams_get rq ''shop''))
            then throw (Resp (redirect (loginPath (auth (config p)))))
            else case sanitizeHost (api p) (searchParams_get rq ''host'') of
                   Inl e \<Rightarrow> throw (Err e)
                 | Inr host \<Rightarrow>
                     if \<not> truthy host then throw (Resp (redirect (loginPath (auth (config p)))))
                     else succeed ())
      else succeed ())"

definition getOfflineToken :: "params \<Rightarrow> request \<Rightarrow> state \<Rightarrow> session option outcome" where
  "getOfflineToken p rq =
     (let offlineId =
            (case searchParams_get rq ''shop'' of
               None \<Rightarrow> getCurrentId (api p) False rq
             | Some sh \<Rightarrow> if sh \<noteq> [] then Some (getOfflineId (api p) sh)
                          else getCurrentId (api p) False rq)
      in case offlineId of
           None \<Rightarrow> throw (Resp (newResponse None 400 ''Bad Request''))
         | Some oid \<Rightarrow>
             if oid = [] then throw (Resp (newResponse None 400 ''Bad Request''))
             else loadSession oid)"

definition testSession :: "params \<Rightarrow> session \<Rightarrow> state \<Rightarrow> unit outcome" where
  "testSession p s =
     (case graphqlQuery (api p) s of None \<Rightarrow> succeed () | Some e \<Rightarrow> throw (Err e))"

definition handleInvalidOfflineSession :: "thrown \<Rightarrow> params \<Rightarrow> request \<Rightarrow> string \<Rightarrow> state \<Rightarrow> unit outcome" where
  "handleInvalidOfflineSession t p rq sh =
     (case t of
        Err (HttpResponseError code txt) \<Rightarrow>
          if code = 401 then beginAuth p rq False (Some sh)
          else throw (Resp (newResponse None code txt))
      | Err GraphqlQueryError \<Rightarrow> throw (Resp (newResponse None 500 ''Internal Server Error''))
      | _ \<Rightarrow> succeed ())"

definition ensureInstalledOnShop :: "params \<Rightarrow> request \<Rightarrow> state \<Rightarrow> unit outcome" where
  "ensureInstalledOnShop p rq =
     bnd (getOfflineToken p rq)
       (\<lambda>offlineSession.
          let sh = searchParams_get rq ''shop'';
              isEmbedded = (searchParams_get rq ''embedded'' = Some ''1'')
          in case offlineSession of
               None \<Rightarrow> if isEmbedded then redirectWithExitIframe p rq sh
                        else beginAuth p rq False sh
             | Some os \<Rightarrow>
                 let sh' = (case sh of None \<Rightarrow> shop os
                            | Some x \<Rightarrow> if x \<noteq> [] then x else shop os)
                 in if isEmbeddedApp (config p) \<and> \<not> isEmbedded
                    then try_catch (testSession p os)
                           (\<lambda>t. handleInvalidOfflineSession t p rq sh')
                    else succeed ())"

definition ensureAppIsEmbeddedIfRequired :: "params \<Rightarrow> request \<Rightarrow> state \<Rightarrow> unit outcome" where
  "ensureAppIsEmbeddedIfRequired p rq =
     (if api_isEmbeddedApp (api p) \<and> searchParams_get rq ''embedded'' \<noteq> Some ''1''
      then redirectToShopifyOrAppRoot p rq []
      else succeed ())"

text \<open>\<^verbatim>\<open>URLSearchParams.set\<close>: the first entry of the name takes the value and the others go; a new name is appended.\<close>

fun set_first :: "(string \<times> string) list \<Rightarrow> string \<Rightarrow> string \<Rightarrow> (string \<times> string) list" where
  "set_first [] k v = []"
| "set_first ((k', v') # ps) k v =
     (if k' = k then (k, v) # filter (\<lambda>kv. fst kv \<noteq> k) ps else (k', v') # set_first ps k v)"

definition params_set :: "(string \<times> string) list \<Rightarrow> string \<Rightarrow> string \<Rightarrow> (string \<times> string) list" where
  "params_set ps k v = (if map_of ps k = None then ps @ [(k, v)] else set_first ps k v)"

definition redirectToBouncePage :: "params \<Rightarrow> request \<Rightarrow> state \<Rightarrow> 'a outcome" where
  "redirectToBouncePage p rq =
     (let reload = appUrl (config p) @ pathname rq @ urlSearch (helpers p) (searchParams rq);
          ps = params_set (searchParams rq) ''shopify-reload'' reload
      in throw (Resp (redirect (patchSessionTokenPath (auth (config p)) @ urlSearch (helpers p) ps))))"

definition ensureSessionTokenSearchParamIfRequired :: "params \<Rightarrow> request \<Rightarrow> state \<Rightarrow> unit outcome" where
  "ensureSessionTokenSearchParamIfRequired p rq =
     (if api_isEmbeddedApp (api p) \<and> \<not> truthy (searchParams_get rq ''id_token'')
      then redirectToBouncePage p rq
      else succeed ())"

definition getShopFromSessionToken :: "params \<Rightarrow> jwtPayload \<Rightarrow> state \<Rightarrow> string outcome" where
  "getShopFromSessionToken p payload =
     (case urlHostname (helpers p) (dest payload) of
        None \<Rightarrow> throw (Err TypeError)
      | Some h \<Rightarrow> succeed h)"

text \<open>
  Modelled from the spec: \<^verbatim>\<open>getSessionTokenFromUrlParam\<close> is missing from the source
  files. The spec names the \<^verbatim>\<open>id_token\<close> query parameter as the fallback carrier of the
  session token.
\<close>

definition getSessionTokenFromUrlParam :: "request \<Rightarrow> string option" where
  "getSessionTokenFromUrlParam rq = searchParams_get rq ''id_token''"

text \<open>The tail of \<^verbatim>\<open>getAuthenticatedSession\<close>, once the tenant and the session id are known.\<close>

definition loadSessionContext ::
  "string option \<Rightarrow> string option \<Rightarrow> jwtPayload option \<Rightarrow> state \<Rightarrow> (string option \<times> sessionContext option) outcome" where
  "loadSessionContext sh sessionId payload =
     (if \<not> truthy sessionId then succeed (sh, None)
      else case sessionId of
             None \<Rightarrow> succeed (sh, None)
           | Some sid \<Rightarrow>
               bnd (loadSession sid)
                 (\<lambda>found. succeed (sh, case found of None \<Rightarrow> None | Some s \<Rightarrow> Some (s, payload))))"

definition getAuthenticatedSession ::
  "params \<Rightarrow> request \<Rightarrow> state \<Rightarrow> (string option \<times> sessionContext option) outcome" where
  "getAuthenticatedSession p rq =
     (let sessionToken =
            (if truthy (getSessionTokenHeader (helpers p) rq) then getSessionTokenHeader (helpers p) rq
             else getSessionTokenFromUrlParam rq)
      in case (if isEmbeddedApp (config p) \<and> truthy sessionToken then sessionToken else None) of
           Some tok \<Rightarrow>
             bnd (lift (case validateSessionToken (helpers p) tok of
                          Inl r \<Rightarrow> Inl (Resp r) | Inr payload \<Rightarrow> Inr payload))
               (\<lambda>payload.
                  bnd (getShopFromSessionToken p payload)
                    (\<lambda>sh. loadSessionContext (Some sh)
                             (Some (if useOnlineTokens (config p)
                                    then getJwtSessionId (api p) sh (sub payload)
                                    else getOfflineId (api p) sh))
                             (Some payload)))
         | None \<Rightarrow>
             if \<not> isEmbeddedApp (config p)
             then loadSessionContext (searchParams_get rq ''shop'')
                    (getCurrentId (api p) (useOnlineTokens (config p)) rq) None
             else throw (Err ShopifyError))"

definition ensureSessionExists :: "params \<Rightarrow> request \<Rightarrow> state \<Rightarrow> sessionContext option outcome" where
  "ensureSessionExists p rq =
     bnd (getAuthenticatedSession p rq)
       (\<lambda>(sh, sessionContext).
          bnd (case sessionContext of
                 None \<Rightarrow> redirectToAuthPage p rq sh
               | Some (s, tok) \<Rightarrow>
                   if \<not> isActive (now (api p)) (scopes (config p)) s then redirectToAuthPage p rq sh
                   else succeed ())
            (\<lambda>_. succeed sessionContext))"

definition authenticateAndGetSessionContext :: "params \<Rightarrow> request \<Rightarrow> state \<Rightarrow> sessionContext option outcome" where
  "authenticateAndGetSessionContext p rq =
     bnd (handleRoutes p rq)
       (\<lambda>_. if truthy (getSessionTokenHeader (helpers p) rq)
             then bnd (getAuthenticatedSession p rq)
                    (\<lambda>(sh, sessionContext). manageAccessToken p sessionContext sh rq)
             else bnd (validateUrlParams p rq)
                    (\<lambda>_. bnd (ensureInstalledOnShop p rq)
                      (\<lambda>_. bnd (ensureAppIsEmbeddedIfRequired p rq)
                        (\<lambda>_. bnd (ensureSessionTokenSearchParamIfRequired p rq)
                          (\<lambda>_. ensureSessionExists p rq)))))"

text \<open>
  The context that \<^verbatim>\<open>authenticateAdmin\<close> returns, by embedding mode. Its \<^verbatim>\<open>admin\<close>,
  \<^verbatim>\<open>billing\<close>, \<^verbatim>\<open>cors\<close> and \<^verbatim>\<open>redirect\<close> members are closures built by factories outside
  the source files and carry no data of their own; the session and the token do.
\<close>

datatype adminContext =
    EmbeddedAdminContext session "jwtPayload option"
  | NonEmbeddedAdminContext session

fun context_session :: "adminContext \<Rightarrow> session" where
  "context_session (EmbeddedAdminContext s tok) = s"
| "context_session (NonEmbeddedAdminContext s) = s"

definition guard :: "response option \<Rightarrow> state \<Rightarrow> unit outcome" where
  "guard r = (case r of None \<Rightarrow> succeed () | Some x \<Rightarrow> throw (Resp x))"

definition authenticateAdmin :: "params \<Rightarrow> request \<Rightarrow> state \<Rightarrow> adminContext outcome" where
  "authenticateAdmin p rq =
     bnd (guard (rejectBotRequest (helpers p) rq))
       (\<lambda>_. bnd (guard (respondToOptionsRequest (helpers p) rq))
         (\<lambda>_. bnd (try_catch (authenticateAndGetSessionContext p rq)
                     (\<lambda>t. case t of
                             Resp r \<Rightarrow> throw (Resp (ensureCORSHeaders (helpers p) rq r))
                           | _ \<Rightarrow> throw t))
           (\<lambda>sessionContext.
              case sessionContext of
                None \<Rightarrow> throw (Err TypeError)
              | Some (s, tok) \<Rightarrow>
                  if isEmbeddedApp (config p) then succeed (EmbeddedAdminContext s tok)
                  else succeed (NonEmbeddedAdminContext s))))"

section \<open>login.ts\<close>

datatype loginErrorType = MissingShop | InvalidShop

text \<open>\<^verbatim>\<open>shop.replace(/^https?:\/\//, '')\<close>.\<close>

definition stripProtocol :: "string \<Rightarrow> string" where
  "stripProtocol s =
     (if take 8 s = ''https://'' then drop 8 s
      else if take 7 s = ''http://'' then drop 7 s
      else s)"

definition shopWithDomain :: "string \<Rightarrow> string" where
  "shopWithDomain s =
     (if CHR ''.'' \<notin> set s then stripProtocol s @ ''.myshopify.com'' else stripProtocol s)"

text \<open>The normalisation of the login helper: protocol stripped, suffix appended, then the sanitizer.\<close>

definition normalizeShop :: "params \<Rightarrow> string \<Rightarrow> string option" where
  "normalizeShop p s = sanitizeShop (api p) (Some (shopWithDomain s))"

text \<open>The shop that the helper reads: the form field when it is truthy, the query parameter otherwise.\<close>

definition loginShop :: "(string \<times> string) list \<Rightarrow> request \<Rightarrow> string option" where
  "loginShop form rq =
     (if truthy (map_of form ''shop'') then map_of form ''shop'' else searchParams_get rq ''shop'')"

text \<open>
  \<^verbatim>\<open>login\<close> awaits \<^verbatim>\<open>request.formData()\<close> first, whatever the method: when the body cannot
  be read as a form the rejection leaves the helper as a thrown \<^verbatim>\<open>TypeError\<close>.
\<close>

definition login :: "params \<Rightarrow> request \<Rightarrow> thrown + loginErrorType" where
  "login p rq =
     (case formData rq of
        None \<Rightarrow> Inl (Err TypeError)
      | Some form \<Rightarrow>
          (case loginShop form rq of
                None \<Rightarrow> Inr MissingShop
              | Some s \<Rightarrow>
                  if s = [] then Inr MissingShop
                  else if \<not> truthy (normalizeShop p s) then Inr InvalidShop
                  else (case normalizeShop p s of
                          None \<Rightarrow> Inr InvalidShop
                        | Some sanitizedShop \<Rightarrow>
                            Inl (Resp (redirect (''https://admin.shopify.com/store/''
                                   @ takeWhile (\<lambda>c. c \<noteq> CHR ''.'') sanitizedShop
                                   @ ''/apps/'' @ apiKey (config p)))))))"

text \<open>
  Modelled from the spec: \<^verbatim>\<open>api.utils.sanitizeShop\<close> belongs to the API library and is
  missing from the source files. The spec gives it as a domain-grammar check that
  returns the input or the null signal and never throws: a label of alphanumeric and
  hyphen characters followed by the platform's canonical suffix.
\<close>

definition labelChar :: "char \<Rightarrow> bool" where
  "labelChar c = (c \<in> set ''abcdefghijklmnopqrstuvwxyzABCDEFGHIJKLMNOPQRSTUVWXYZ0123456789-'')"

definition canonicalSuffix :: string where
  "canonicalSuffix = ''.myshopify.com''"

definition sanitizeShop_spec :: "string option \<Rightarrow> string option" where
  "sanitizeShop_spec raw =
     (case raw of
        None \<Rightarrow> None
      | Some s \<Rightarrow>
          (let n = length s - length canonicalSuffix
           in if drop n s = canonicalSuffix \<and> take n s \<noteq> [] \<and> list_all labelChar (take n s)
                 \<and> hd (take n s) \<noteq> CHR ''-''
              then Some s else None))"

section \<open>Test fixtures\<close>

text \<open>Concrete collaborators, configurations and requests on which the theorems below are exercised.\<close>

definition TEST_SHOP :: string where
  "TEST_SHOP = ''test-shop.myshopify.com''"

definition storedSession :: session where
  "storedSession = \<lparr>session_id = ''offline_test-shop.myshopify.com'', shop = TEST_SHOP,
     isOnline = False, scope = [''read_products''], expires = None\<rparr>"

definition testPaths :: authPaths where
  "testPaths = \<lparr>path = ''/auth'', callbackPath = ''/auth/callback'', loginPath = ''/auth/login'',
     patchSessionTokenPath = ''/auth/session-token'', exitIframePath = ''/auth/exit-iframe''\<rparr>"

definition testConfig :: "bool \<Rightarrow> bool \<Rightarrow> config" where
  "testConfig embedded online = \<lparr>isEmbeddedApp = embedded, useOnlineTokens = online,
     scopes = [''read_products''], appUrl = ''https://my-test-app.myshopify.io'',
     apiKey = ''testApiKey'', auth = testPaths, afterAuth = None\<rparr>"

definition testApi :: "bool \<Rightarrow> (thrown + (session \<times> header_list)) \<Rightarrow> api" where
  "testApi embedded exchange = \<lparr>api_isEmbeddedApp = embedded,
     sanitizeShop = sanitizeShop_spec,
     sanitizeHost = (\<lambda>h. case h of
        None \<Rightarrow> Inr None
      | Some x \<Rightarrow> if x = ''bm90IGEgaG9zdA'' then Inl TypeError else Inr (Some x)),
     getOfflineId = (\<lambda>sh. ''offline_'' @ sh),
     getJwtSessionId = (\<lambda>sh u. sh @ ''_'' @ u),
     getCurrentId = (\<lambda>online rq. None),
     auth_callback = (\<lambda>rq. exchange),
     authorizeUrl = (\<lambda>sh online. ''https://'' @ (case sh of None \<Rightarrow> [] | Some x \<Rightarrow> x) @ ''/admin/oauth/authorize''),
     graphqlQuery = (\<lambda>s. None),
     now = 0\<rparr>"

definition testHelpers :: helpers where
  "testHelpers = \<lparr>rejectBotRequest = (\<lambda>rq. None),
     respondToOptionsRequest = (\<lambda>rq. None),
     ensureCORSHeaders = (\<lambda>rq r. r),
     getSessionTokenHeader = (\<lambda>rq. map_of (requestHeaders rq) ''authorization''),
     validateSessionToken = (\<lambda>t. if t = ''valid-token''
        then Inr \<lparr>dest = ''https://test-shop.myshopify.com'', sub = ''12345''\<rparr>
        else Inl (newResponse None 401 ''Unauthorized'')),
     urlHostname = (\<lambda>u. if take 8 u = ''https://'' then Some (drop 8 u) else None),
     urlSearch = (\<lambda>ps. []),
     exitIframeQuery = (\<lambda>rq sh. []),
     renderAppBridgeResponse = (\<lambda>rq target. newResponse None 200 []),
     shopifyOrAppRootUrl = (\<lambda>rq. ''/''),
     authPageResponse = (\<lambda>rq sh. redirect ''/auth'')\<rparr>"

definition testParams :: "bool \<Rightarrow> bool \<Rightarrow> (thrown + (session \<times> header_list)) \<Rightarrow> params" where
  "testParams embedded online exchange =
     \<lparr>api = testApi embedded exchange, config = testConfig embedded online, helpers = testHelpers\<rparr>"

definition hookedParams :: "(thrown + (session \<times> header_list)) \<Rightarrow> params" where
  "hookedParams exchange =
     \<lparr>api = testApi True exchange,
      config = (testConfig True True)\<lparr>afterAuth := Some (\<lambda>s. None)\<rparr>,
      helpers = testHelpers\<rparr>"

definition rejectingHookParams :: "(thrown + (session \<times> header_list)) \<Rightarrow> params" where
  "rejectingHookParams exchange =
     \<lparr>api = testApi True exchange,
      config = (testConfig True False)\<lparr>afterAuth := Some (\<lambda>s. Some Nullish)\<rparr>,
      helpers = testHelpers\<rparr>"

definition testRequest :: "string \<Rightarrow> (string \<times> string) list \<Rightarrow> (string \<times> string) list \<Rightarrow> request" where
  "testRequest pth query hs =
     \<lparr>requestMethod = ''GET'', pathname = pth, searchParams = query, requestHeaders = hs, formData = Some []\<rparr>"

text \<open>A GET without a body, whose \<^verbatim>\<open>formData()\<close> rejects, and a POST with a form body.\<close>

definition plainGet :: "string \<Rightarrow> (string \<times> string) list \<Rightarrow> request" where
  "plainGet pth query =
     \<lparr>requestMethod = ''GET'', pathname = pth, searchParams = query, requestHeaders = [], formData = None\<rparr>"


definition emptyState :: state where
  "emptyState = \<lparr>sessionStorage = Map.empty, trace = []\<rparr>"

definition installedState :: state where
  "installedState = \<lparr>sessionStorage = [''offline_test-shop.myshopify.com'' \<mapsto> storedSession], trace = []\<rparr>"

lemmas fixture_defs = testParams_def hookedParams_def rejectingHookParams_def testApi_def testConfig_def testHelpers_def testPaths_def
  testRequest_def emptyState_def installedState_def storedSession_def TEST_SHOP_def

section \<open>Control-flow lemmas\<close>

lemma bnd_succeed: "bnd (succeed a) f st = f a st"
  by (simp add: bnd_def succeed_def)

lemma bnd_throw: "bnd (throw t) f st = (Inl t, st)"
  by (simp add: bnd_def throw_def)

lemma bnd_emit: "bnd (emit e) f st = f () (st\<lparr>trace := trace st @ [e]\<rparr>)"
  by (simp add: bnd_def emit_def)

lemma bnd_lift_Inl: "bnd (lift (Inl t)) f st = (Inl t, st)"
  by (simp add: bnd_def lift_def)

lemma bnd_lift_Inr: "bnd (lift (Inr a)) f st = f a st"
  by (simp add: bnd_def lift_def)

lemma bnd_storeSession:
  "bnd (storeSession s) f st =
     f () (st\<lparr>sessionStorage := (sessionStorage st)(session_id s \<mapsto> s), trace := trace st @ [EvStoreSession s]\<rparr>)"
  by (simp add: bnd_def storeSession_def)

lemma beginAuth_throws:
  "beginAuth p rq online sh st =
     (Inl (Resp (redirect (authorizeUrl (api p) sh online))), st\<lparr>trace := trace st @ [EvBeginAuth sh online]\<rparr>)"
  by (simp add: beginAuth_def bnd_emit throw_def)

lemma redirectWithExitIframe_throws:
  "redirectWithExitIframe p rq sh st =
     (Inl (Resp (redirect (exitIframePath (auth (config p)) @ ''?'' @ exitIframeQuery (helpers p) rq sh))),
      st\<lparr>trace := trace st @ [EvExitIframe sh]\<rparr>)"
  by (simp add: redirectWithExitIframe_def bnd_emit throw_def)

lemma bnd_beginAuth:
  "bnd (beginAuth p rq online sh) f st =
     (Inl (Resp (redirect (authorizeUrl (api p) sh online))), st\<lparr>trace := trace st @ [EvBeginAuth sh online]\<rparr>)"
  by (simp add: bnd_def beginAuth_throws)

lemma oauthCallbackTry_callback_throws:
  "auth_callback (api p) rq = Inl t \<Longrightarrow> oauthCallbackTry p rq sh st = (Inl t, st)"
  by (simp add: oauthCallbackTry_def bnd_lift_Inl)

lemma handleAuthBeginRequest_throws:
  "handleAuthBeginRequest p rq sh st =
     (if isEmbeddedApp (config p) \<and> headers_get rq ''Sec-Fetch-Dest'' = Some ''iframe''
      then (Inl (Resp (redirect (exitIframePath (auth (config p)) @ ''?'' @ exitIframeQuery (helpers p) rq (Some sh)))),
            st\<lparr>trace := trace st @ [EvExitIframe (Some sh)]\<rparr>)
      else (Inl (Resp (redirect (authorizeUrl (api p) (Some sh) False))),
            st\<lparr>trace := trace st @ [EvBeginAuth (Some sh) False]\<rparr>))"
  by (simp add: handleAuthBeginRequest_def beginAuth_throws redirectWithExitIframe_throws)

section \<open>The OAuth callback\<close>

text \<open>
  Claim C2. When the token exchange of a callback raises \<open>InvalidHmacError\<close> or
  \<open>InvalidOAuthError\<close>, the handler ends with the thrown response of status 400 and the
  state is the one it started from: no session was stored and no collaborator was called.
\<close>

theorem callback_invalid_signature_400:
  assumes "auth_callback (api p) rq = Inl (Err e)"
    and "e = InvalidHmacError \<or> e = InvalidOAuthError"
  shows "(handleAuthCallbackRequest p rq sh st :: 'a outcome) =
           (Inl (Resp (newResponse None 400 ''Invalid OAuth Request'')), st)
         \<and> thrownStatus (handleAuthCallbackRequest p rq sh st :: 'a outcome) = Some 400"
  using assms
  by (auto simp: handleAuthCallbackRequest_def try_catch_def oauthCallbackTry_callback_throws
        oauthCallbackError_def bnd_succeed throw_def newResponse_def thrownStatus_def)

theorem callback_invalid_signature_400_witness:
  "(handleAuthCallbackRequest (testParams True False (Inl (Err InvalidHmacError)))
      (testRequest ''/auth/callback'' [(''shop'', TEST_SHOP)] []) TEST_SHOP emptyState :: unit outcome) =
     (Inl (Resp (newResponse None 400 ''Invalid OAuth Request'')), emptyState)
   \<and> thrownStatus (handleAuthCallbackRequest (testParams True False (Inl (Err InvalidHmacError)))
      (testRequest ''/auth/callback'' [(''shop'', TEST_SHOP)] []) TEST_SHOP emptyState :: unit outcome) = Some 400"
proof -
  have h: "auth_callback (api (testParams True False (Inl (Err InvalidHmacError))))
             (testRequest ''/auth/callback'' [(''shop'', TEST_SHOP)] []) = Inl (Err InvalidHmacError)"
    by (simp add: testParams_def testApi_def)
  show ?thesis
    by (rule callback_invalid_signature_400 [where ?'a = unit, OF h]) simp
qed

text \<open>
  Claim C3. Under a configuration with online tokens, a callback whose exchange yields an
  offline session stores that session, then calls \<open>beginAuth\<close> for an online token, and
  the redirect thrown there is the outcome of the callback: the trace gains the store and
  the begin call and nothing else, so the after-auth hook has not run.
\<close>

theorem callback_offline_requests_online:
  assumes "auth_callback (api p) rq = Inr (s, hs)"
    and "useOnlineTokens (config p)" and "\<not> isOnline s"
  shows "handleAuthCallbackRequest p rq sh st =
           (Inl (Resp (redirect (authorizeUrl (api p) (Some sh) True))),
            st\<lparr>sessionStorage := (sessionStorage st)(session_id s \<mapsto> s),
               trace := trace st @ [EvStoreSession s, EvBeginAuth (Some sh) True]\<rparr>)"
  using assms
  by (simp add: handleAuthCallbackRequest_def try_catch_def oauthCallbackTry_def bnd_lift_Inr
        bnd_storeSession bnd_beginAuth throw_def)

theorem callback_offline_requests_online_witness:
  "afterAuth (config (hookedParams (Inr (storedSession, [])))) \<noteq> None
   \<and> (handleAuthCallbackRequest (hookedParams (Inr (storedSession, [])))
      (testRequest ''/auth/callback'' [(''shop'', TEST_SHOP)] []) TEST_SHOP emptyState :: unit outcome) =
     (Inl (Resp (redirect ''https://test-shop.myshopify.com/admin/oauth/authorize'')),
      \<lparr>sessionStorage = [''offline_test-shop.myshopify.com'' \<mapsto> storedSession],
       trace = [EvStoreSession storedSession, EvBeginAuth (Some TEST_SHOP) True]\<rparr>)"
proof -
  let ?p = "hookedParams (Inr (storedSession, []))"
  let ?rq = "testRequest ''/auth/callback'' [(''shop'', TEST_SHOP)] []"
  have x: "auth_callback (api ?p) ?rq = Inr (storedSession, [])"
    by (simp add: hookedParams_def testApi_def)
  have u: "useOnlineTokens (config ?p)"
    by (simp add: hookedParams_def testConfig_def)
  have o: "\<not> isOnline storedSession"
    by (simp add: storedSession_def)
  from callback_offline_requests_online [where ?'a = unit, OF x u o, of TEST_SHOP emptyState]
  show ?thesis
    by (simp add: hookedParams_def testApi_def testConfig_def emptyState_def storedSession_def TEST_SHOP_def)
qed

text \<open>
  For contrast: when no further token is needed and a hook is registered that returns, the
  callback stores the session, runs the hook and ends with the redirect to the platform
  or the app root.
\<close>

lemma callback_completes_with_hook:
  assumes "auth_callback (api p) rq = Inr (s, hs)"
    and "useOnlineTokens (config p) \<longrightarrow> isOnline s"
    and "afterAuth (config p) = Some hook" and "hook s = None"
  shows "trace (snd (handleAuthCallbackRequest p rq sh st :: 'a outcome)) =
           trace st @ [EvStoreSession s, EvAfterAuth s, EvShopifyOrAppRoot]"
proof -
  have c: "(useOnlineTokens (config p) \<and> \<not> isOnline s) = False"
    using assms(2) by blast
  have "(oauthCallbackTry p rq sh st :: 'a outcome) =
          (Inl (Resp ((redirect (shopifyOrAppRootUrl (helpers p) rq))
                 \<lparr>headers := (''Location'', shopifyOrAppRootUrl (helpers p) rq) # hs\<rparr>)),
           st\<lparr>sessionStorage := (sessionStorage st)(session_id s \<mapsto> s),
              trace := trace st @ [EvStoreSession s, EvAfterAuth s, EvShopifyOrAppRoot]\<rparr>)"
    using assms(1,3,4)
    by (simp add: c oauthCallbackTry_def bnd_def lift_def storeSession_def succeed_def
          triggerAfterAuthHook_def emit_def redirectToShopifyOrAppRoot_def throw_def)
  then show ?thesis
    by (simp add: handleAuthCallbackRequest_def try_catch_def throw_def)
qed

lemma handleAuthCallbackRequest_caught:
  assumes "(oauthCallbackTry p rq sh st :: 'a outcome) = (Inl (Err e), st')"
  shows "(handleAuthCallbackRequest p rq sh st :: 'a outcome) =
        (if e = CookieNotFound then handleAuthBeginRequest p rq sh st'
         else if e = InvalidHmacError \<or> e = InvalidOAuthError
         then (Inl (Resp (newResponse None 400 ''Invalid OAuth Request'')), st')
         else (Inl (Resp (newResponse None 500 ''Internal Server Error'')), st'))"
proof -
  have "(handleAuthCallbackRequest p rq sh st :: 'a outcome) =
          bnd (oauthCallbackError p (Err e) rq sh) (\<lambda>r. throw (Resp r)) st'"
    using assms by (simp add: handleAuthCallbackRequest_def try_catch_def)
  then show ?thesis
    by (simp add: oauthCallbackError_def succeed_def throw_def handleAuthBeginRequest_throws bnd_def)
qed

text \<open>
  What the handler does with each kind of thrown value that is not a response. An error
  object has exactly one of three outcomes, each spelled out: \<open>CookieNotFound\<close> ends in
  the exit-iframe redirect or in the authorize redirect for an offline token, as the
  begin handler decides; \<open>InvalidHmacError\<close> and \<open>InvalidOAuthError\<close> end in the 400
  response; any other error object ends in the 500 response.
\<close>

lemma callback_error_objects_classified:
  assumes "(oauthCallbackTry p rq sh st :: 'a outcome) = (Inl (Err e), st')"
  shows "(handleAuthCallbackRequest p rq sh st :: 'a outcome) =
        (if e = CookieNotFound
         then (if isEmbeddedApp (config p) \<and> headers_get rq ''Sec-Fetch-Dest'' = Some ''iframe''
               then (Inl (Resp (redirect (exitIframePath (auth (config p)) @ ''?'' @ exitIframeQuery (helpers p) rq (Some sh)))),
                     st'\<lparr>trace := trace st' @ [EvExitIframe (Some sh)]\<rparr>)
               else (Inl (Resp (redirect (authorizeUrl (api p) (Some sh) False))),
                     st'\<lparr>trace := trace st' @ [EvBeginAuth (Some sh) False]\<rparr>))
         else if e = InvalidHmacError \<or> e = InvalidOAuthError
         then (Inl (Resp (newResponse None 400 ''Invalid OAuth Request'')), st')
         else (Inl (Resp (newResponse None 500 ''Internal Server Error'')), st'))"
  using handleAuthCallbackRequest_caught [OF assms]
  by (simp add: handleAuthBeginRequest_throws)

text \<open>A thrown value that is neither null nor an error object ends in the 500 response.\<close>

lemma callback_non_error_value_500:
  assumes "(oauthCallbackTry p rq sh st :: 'a outcome) = (Inl (NonError v), st')"
  shows "(handleAuthCallbackRequest p rq sh st :: 'a outcome) =
           (Inl (Resp (newResponse None 500 ''Internal Server Error'')), st')"
  using assms
  by (simp add: handleAuthCallbackRequest_def try_catch_def oauthCallbackError_def bnd_succeed throw_def)

text \<open>
  A thrown \<^verbatim>\<open>null\<close> or \<^verbatim>\<open>undefined\<close> is not classified: the read of its message throws,
  and the handler ends with that \<open>TypeError\<close> instead of a response.
\<close>

lemma callback_nullish_escapes:
  assumes "(oauthCallbackTry p rq sh st :: 'a outcome) = (Inl Nullish, st')"
  shows "(handleAuthCallbackRequest p rq sh st :: 'a outcome) = (Inl (Err TypeError), st')"
  using assms
  by (simp add: handleAuthCallbackRequest_def try_catch_def oauthCallbackError_def bnd_throw)

text \<open>
  Claim C6 fails on the code. The claim has every callback error that is not a response
  end in one of the three classified outcomes. With a registered hook that rejects without
  a reason after the session has been exchanged and stored, the handler ends with a thrown
  \<open>TypeError\<close>: the value is not classified and no response is produced.
\<close>

theorem callback_hook_rejection_escapes:
  "(handleAuthCallbackRequest (rejectingHookParams (Inr (storedSession, [])))
      (testRequest ''/auth/callback'' [(''shop'', TEST_SHOP)] []) TEST_SHOP emptyState :: unit outcome) =
     (Inl (Err TypeError),
      \<lparr>sessionStorage = [''offline_test-shop.myshopify.com'' \<mapsto> storedSession],
       trace = [EvStoreSession storedSession, EvAfterAuth storedSession]\<rparr>)"
proof -
  let ?p = "rejectingHookParams (Inr (storedSession, []))"
  let ?rq = "testRequest ''/auth/callback'' [(''shop'', TEST_SHOP)] []"
  have x: "auth_callback (api ?p) ?rq = Inr (storedSession, [])"
    by (simp add: rejectingHookParams_def testApi_def)
  have u: "\<not> useOnlineTokens (config ?p)"
    by (simp add: rejectingHookParams_def testConfig_def)
  have h: "afterAuth (config ?p) = Some (\<lambda>s. Some Nullish)"
    by (simp add: rejectingHookParams_def testConfig_def)
  have "(oauthCallbackTry ?p ?rq TEST_SHOP emptyState :: unit outcome) =
          (Inl Nullish,
           emptyState\<lparr>sessionStorage := (sessionStorage emptyState)(session_id storedSession \<mapsto> storedSession),
              trace := trace emptyState @ [EvStoreSession storedSession, EvAfterAuth storedSession]\<rparr>)"
    by (simp add: oauthCallbackTry_def x u h bnd_def lift_def storeSession_def succeed_def
          triggerAfterAuthHook_def emit_def throw_def)
  from callback_nullish_escapes [OF this] show ?thesis
    by (simp add: emptyState_def storedSession_def)
qed

section \<open>OAuth begin\<close>

text \<open>
  Claim C4. Under an embedded configuration, the begin handler of a request whose
  \<open>Sec-Fetch-Dest\<close> header is \<open>iframe\<close> ends with the exit-iframe redirect and the only
  collaborator call it makes is the exit-iframe responder, so no redirect to the authorize
  URL is issued; a request to the begin path with a shop the sanitizer accepts reaches that
  handler through the route dispatch and ends the same way.
\<close>

theorem auth_begin_in_iframe_exits_iframe:
  assumes "isEmbeddedApp (config p)"
    and "headers_get rq ''Sec-Fetch-Dest'' = Some ''iframe''"
  shows "(handleAuthBeginRequest p rq sh st :: 'a outcome) =
           (Inl (Resp (redirect (exitIframePath (auth (config p)) @ ''?'' @ exitIframeQuery (helpers p) rq (Some sh)))),
            st\<lparr>trace := trace st @ [EvExitIframe (Some sh)]\<rparr>)
       \<and> (pathname rq = path (auth (config p))
            \<and> pathname rq \<noteq> patchSessionTokenPath (auth (config p))
            \<and> pathname rq \<noteq> exitIframePath (auth (config p))
            \<and> sanitizeShop (api p) (searchParams_get rq ''shop'') = Some sh \<and> sh \<noteq> [] \<longrightarrow>
          handleRoutes p rq st =
           (Inl (Resp (redirect (exitIframePath (auth (config p)) @ ''?'' @ exitIframeQuery (helpers p) rq (Some sh)))),
            st\<lparr>trace := trace st @ [EvExitIframe (Some sh)]\<rparr>))"
proof (intro conjI impI)
  show "(handleAuthBeginRequest p rq sh st :: 'a outcome) =
           (Inl (Resp (redirect (exitIframePath (auth (config p)) @ ''?'' @ exitIframeQuery (helpers p) rq (Some sh)))),
            st\<lparr>trace := trace st @ [EvExitIframe (Some sh)]\<rparr>)"
    using assms by (simp add: handleAuthBeginRequest_throws)
next
  assume r: "pathname rq = path (auth (config p))
            \<and> pathname rq \<noteq> patchSessionTokenPath (auth (config p))
            \<and> pathname rq \<noteq> exitIframePath (auth (config p))
            \<and> sanitizeShop (api p) (searchParams_get rq ''shop'') = Some sh \<and> sh \<noteq> []"
  from r have r1: "pathname rq = path (auth (config p))"
    and r2: "pathname rq \<noteq> patchSessionTokenPath (auth (config p))"
    and r3: "pathname rq \<noteq> exitIframePath (auth (config p))"
    and r4: "sanitizeShop (api p) (searchParams_get rq ''shop'') = Some sh"
    and r5: "sh \<noteq> []"
    by blast+
  have b: "handleBouncePageRoute p rq = succeed ()"
    using r2 by (simp add: handleBouncePageRoute_def)
  have x: "handleExitIframeRoute p rq = succeed ()"
    using r3 by (simp add: handleExitIframeRoute_def)
  have "handleOAuthRoutes p rq = handleAuthBeginRequest p rq sh"
    using r1 r4 r5 by (simp add: handleOAuthRoutes_def)
  with b x have "handleRoutes p rq st = handleAuthBeginRequest p rq sh st"
    by (simp add: handleRoutes_def bnd_succeed)
  then show "handleRoutes p rq st =
           (Inl (Resp (redirect (exitIframePath (auth (config p)) @ ''?'' @ exitIframeQuery (helpers p) rq (Some sh)))),
            st\<lparr>trace := trace st @ [EvExitIframe (Some sh)]\<rparr>)"
    using assms by (simp add: handleAuthBeginRequest_throws)
qed

theorem auth_begin_in_iframe_exits_iframe_witness:
  "handleRoutes (testParams True False (Inl (Err CookieNotFound)))
      (testRequest ''/auth'' [(''shop'', TEST_SHOP)] [(''Sec-Fetch-Dest'', ''iframe'')]) emptyState =
     (Inl (Resp (redirect ''/auth/exit-iframe?'')), \<lparr>sessionStorage = Map.empty, trace = [EvExitIframe (Some TEST_SHOP)]\<rparr>)"
proof -
  let ?p = "testParams True False (Inl (Err CookieNotFound))"
  let ?rq = "testRequest ''/auth'' [(''shop'', TEST_SHOP)] [(''Sec-Fetch-Dest'', ''iframe'')]"
  have e: "isEmbeddedApp (config ?p)"
    by (simp add: testParams_def testConfig_def)
  have f: "headers_get ?rq ''Sec-Fetch-Dest'' = Some ''iframe''"
    by (simp add: testRequest_def headers_get_def)
  have g: "pathname ?rq = path (auth (config ?p))
            \<and> pathname ?rq \<noteq> patchSessionTokenPath (auth (config ?p))
            \<and> pathname ?rq \<noteq> exitIframePath (auth (config ?p))
            \<and> sanitizeShop (api ?p) (searchParams_get ?rq ''shop'') = Some TEST_SHOP \<and> TEST_SHOP \<noteq> []"
    by (simp add: fixture_defs searchParams_get_def sanitizeShop_spec_def canonicalSuffix_def labelChar_def)
  from auth_begin_in_iframe_exits_iframe [where ?'a = unit, OF e f, of TEST_SHOP emptyState] g
  have "handleRoutes ?p ?rq emptyState =
          (Inl (Resp (redirect (exitIframePath (auth (config ?p)) @ ''?'' @ exitIframeQuery (helpers ?p) ?rq (Some TEST_SHOP)))),
           emptyState\<lparr>trace := trace emptyState @ [EvExitIframe (Some TEST_SHOP)]\<rparr>)"
    by blast
  then show ?thesis
    by (simp add: testParams_def testConfig_def testPaths_def testHelpers_def emptyState_def)
qed

text \<open>
  Claim C5. When the processing of a callback raises \<open>CookieNotFound\<close>, the outcome is
  the one of the begin handler for the same tenant: the exit-iframe redirect for an
  embedded app inside an iframe, the authorize redirect for an offline token otherwise;
  its status is 302 in both cases.
\<close>

theorem callback_cookie_not_found_restarts:
  assumes "(oauthCallbackTry p rq sh st :: 'a outcome) = (Inl (Err CookieNotFound), st')"
  shows "(handleAuthCallbackRequest p rq sh st :: 'a outcome) = handleAuthBeginRequest p rq sh st'
       \<and> (handleAuthCallbackRequest p rq sh st :: 'a outcome) =
           (if isEmbeddedApp (config p) \<and> headers_get rq ''Sec-Fetch-Dest'' = Some ''iframe''
            then (Inl (Resp (redirect (exitIframePath (auth (config p)) @ ''?'' @ exitIframeQuery (helpers p) rq (Some sh)))),
                  st'\<lparr>trace := trace st' @ [EvExitIframe (Some sh)]\<rparr>)
            else (Inl (Resp (redirect (authorizeUrl (api p) (Some sh) False))),
                  st'\<lparr>trace := trace st' @ [EvBeginAuth (Some sh) False]\<rparr>))
       \<and> thrownStatus (handleAuthCallbackRequest p rq sh st :: 'a outcome) = Some 302"
proof -
  from handleAuthCallbackRequest_caught [OF assms]
  have "(handleAuthCallbackRequest p rq sh st :: 'a outcome) = handleAuthBeginRequest p rq sh st'"
    by simp
  then show ?thesis
    by (simp add: handleAuthBeginRequest_throws thrownStatus_def redirect_def)
qed

theorem callback_cookie_not_found_restarts_witness:
  "(handleAuthCallbackRequest (testParams True False (Inl (Err CookieNotFound)))
      (testRequest ''/auth/callback'' [(''shop'', TEST_SHOP)] []) TEST_SHOP emptyState :: unit outcome) =
     (Inl (Resp (redirect ''https://test-shop.myshopify.com/admin/oauth/authorize'')),
      \<lparr>sessionStorage = Map.empty, trace = [EvBeginAuth (Some TEST_SHOP) False]\<rparr>)
   \<and> thrownStatus (handleAuthCallbackRequest (testParams True False (Inl (Err CookieNotFound)))
      (testRequest ''/auth/callback'' [(''shop'', TEST_SHOP)] []) TEST_SHOP emptyState :: unit outcome) = Some 302"
proof -
  let ?p = "testParams True False (Inl (Err CookieNotFound))"
  let ?rq = "testRequest ''/auth/callback'' [(''shop'', TEST_SHOP)] []"
  have "auth_callback (api ?p) ?rq = Inl (Err CookieNotFound)"
    by (simp add: testParams_def testApi_def)
  then have h: "(oauthCallbackTry ?p ?rq TEST_SHOP emptyState :: unit outcome) = (Inl (Err CookieNotFound), emptyState)"
    by (rule oauthCallbackTry_callback_throws)
  have f: "headers_get ?rq ''Sec-Fetch-Dest'' = None"
    by (simp add: testRequest_def headers_get_def)
  from callback_cookie_not_found_restarts [where ?'a = unit, OF h, THEN conjunct2]
  have "(handleAuthCallbackRequest ?p ?rq TEST_SHOP emptyState :: unit outcome) =
          (Inl (Resp (redirect (authorizeUrl (api ?p) (Some TEST_SHOP) False))),
           emptyState\<lparr>trace := trace emptyState @ [EvBeginAuth (Some TEST_SHOP) False]\<rparr>)"
    by (simp add: f)
  then show ?thesis
    by (simp add: testParams_def testApi_def emptyState_def TEST_SHOP_def thrownStatus_def redirect_def)
qed

section \<open>The decision engine\<close>

lemma bnd_Inr: "m st = (Inr a, st') \<Longrightarrow> bnd m f st = f a st'"
  by (simp add: bnd_def)

lemma bnd_Inl: "m st = (Inl t, st') \<Longrightarrow> bnd m f st = (Inl t, st')"
  by (simp add: bnd_def)

lemma guard_None: "guard None = succeed ()"
  by (simp add: guard_def)

lemma handleRoutes_no_match:
  assumes "pathname rq \<noteq> patchSessionTokenPath (auth (config p))"
    and "pathname rq \<noteq> exitIframePath (auth (config p))"
    and "pathname rq \<noteq> path (auth (config p))"
    and "pathname rq \<noteq> callbackPath (auth (config p))"
  shows "handleRoutes p rq st = (Inr (), st)"
  using assms
  by (simp add: handleRoutes_def handleBouncePageRoute_def handleExitIframeRoute_def
        handleOAuthRoutes_def bnd_succeed succeed_def)

lemma loadSessionContext_found:
  assumes "sid \<noteq> []" and "sessionStorage st sid = Some s"
  shows "loadSessionContext sh (Some sid) payload st = (Inr (sh, Some (s, payload)), st)"
  using assms by (simp add: loadSessionContext_def loadSession_def bnd_def succeed_def)

lemma getAuthenticatedSession_token:
  assumes "isEmbeddedApp (config p)"
    and "getSessionTokenHeader (helpers p) rq = Some tok" and "tok \<noteq> []"
    and "validateSessionToken (helpers p) tok = Inr payload"
    and "urlHostname (helpers p) (dest payload) = Some sh"
  shows "getAuthenticatedSession p rq st =
           loadSessionContext (Some sh)
             (Some (if useOnlineTokens (config p) then getJwtSessionId (api p) sh (sub payload)
                    else getOfflineId (api p) sh))
             (Some payload) st"
  using assms
  by (simp add: getAuthenticatedSession_def getShopFromSessionToken_def bnd_lift_Inr bnd_succeed
        cong: if_cong)

lemma manageAccessToken_active:
  assumes "isActive (now (api p)) (scopes (config p)) s"
  shows "manageAccessToken p (Some (s, tok)) sh rq st = (Inr (Some (s, tok)), st)"
  using assms by (simp add: manageAccessToken_def bnd_succeed succeed_def)

text \<open>
  Claim C1, as amended. Under an embedded configuration, a request that the bot and
  preflight guards let through, whose path is none of the bounce, exit-iframe, begin and
  callback paths, and whose session token header validates to a payload with a parsable
  destination, is answered with the embedded context of the session stored under the id
  the engine computes (the JWT id with online tokens, the offline id otherwise), provided
  that session is active for the configured scopes. The state is unchanged: nothing was
  stored and no redirect helper was called.
\<close>

theorem authenticateAdmin_active_session:
  assumes "rejectBotRequest (helpers p) rq = None"
    and "respondToOptionsRequest (helpers p) rq = None"
    and "pathname rq \<noteq> patchSessionTokenPath (auth (config p))"
    and "pathname rq \<noteq> exitIframePath (auth (config p))"
    and "pathname rq \<noteq> path (auth (config p))"
    and "pathname rq \<noteq> callbackPath (auth (config p))"
    and "isEmbeddedApp (config p)"
    and "getSessionTokenHeader (helpers p) rq = Some tok" and "tok \<noteq> []"
    and "validateSessionToken (helpers p) tok = Inr payload"
    and "urlHostname (helpers p) (dest payload) = Some sh"
    and "sid = (if useOnlineTokens (config p) then getJwtSessionId (api p) sh (sub payload)
                else getOfflineId (api p) sh)"
    and "sid \<noteq> []"
    and "sessionStorage st sid = Some s"
    and "isActive (now (api p)) (scopes (config p)) s"
  shows "authenticateAdmin p rq st = (Inr (EmbeddedAdminContext s (Some payload)), st)
       \<and> context_session (EmbeddedAdminContext s (Some payload)) = s"
proof -
  have r: "handleRoutes p rq st = (Inr (), st)"
    using assms(3-6) by (rule handleRoutes_no_match)
  have g: "getAuthenticatedSession p rq st = (Inr (Some sh, Some (s, Some payload)), st)"
    using getAuthenticatedSession_token [OF assms(7-11)]
      loadSessionContext_found [OF assms(13,14), of "Some sh" "Some payload"] assms(12)
    by simp
  have m: "manageAccessToken p (Some (s, Some payload)) (Some sh) rq st = (Inr (Some (s, Some payload)), st)"
    using assms(15) by (rule manageAccessToken_active)
  have a: "authenticateAndGetSessionContext p rq st = (Inr (Some (s, Some payload)), st)"
    using assms(8,9) by (simp add: authenticateAndGetSessionContext_def bnd_def r g m)
  show ?thesis
    using assms(1,2,7)
    by (simp add: authenticateAdmin_def guard_None bnd_succeed try_catch_def a bnd_def succeed_def)
qed

lemma sanitize_TEST_SHOP: "sanitizeShop_spec (Some TEST_SHOP) = Some TEST_SHOP"
  by (simp add: sanitizeShop_spec_def canonicalSuffix_def labelChar_def TEST_SHOP_def)

theorem authenticateAdmin_active_session_witness:
  "authenticateAdmin (testParams True False (Inl (Err CookieNotFound)))
     (testRequest ''/app'' [] [(''authorization'', ''valid-token'')]) installedState =
   (Inr (EmbeddedAdminContext storedSession (Some \<lparr>dest = ''https://test-shop.myshopify.com'', sub = ''12345''\<rparr>)),
    installedState)"
proof -
  let ?p = "testParams True False (Inl (Err CookieNotFound))"
  let ?rq = "testRequest ''/app'' [] [(''authorization'', ''valid-token'')]"
  let ?payload = "\<lparr>dest = ''https://test-shop.myshopify.com'', sub = ''12345''\<rparr>"
  have "authenticateAdmin ?p ?rq installedState = (Inr (EmbeddedAdminContext storedSession (Some ?payload)), installedState)
       \<and> context_session (EmbeddedAdminContext storedSession (Some ?payload)) = storedSession"
  proof (rule authenticateAdmin_active_session [where tok = "''valid-token''" and sh = TEST_SHOP
          and sid = "''offline_test-shop.myshopify.com''"])
    show "isActive (now (api ?p)) (scopes (config ?p)) storedSession"
      by (simp add: isActive_def fixture_defs)
  qed (simp_all add: fixture_defs)
  then show ?thesis by simp
qed

text \<open>
  Claim C1 as stated fails on a request to the begin path: with a valid token in the
  header and an active stored session for the tenant, the route dispatch runs first and
  the engine ends with the OAuth redirect instead of a context.
\<close>

theorem authenticateAdmin_route_counterexample:
  "isEmbeddedApp (config (testParams True False (Inl (Err CookieNotFound))))
   \<and> getSessionTokenHeader (helpers (testParams True False (Inl (Err CookieNotFound))))
        (testRequest ''/auth'' [(''shop'', TEST_SHOP)] [(''authorization'', ''valid-token'')]) = Some ''valid-token''
   \<and> validateSessionToken (helpers (testParams True False (Inl (Err CookieNotFound)))) ''valid-token''
        = Inr \<lparr>dest = ''https://test-shop.myshopify.com'', sub = ''12345''\<rparr>
   \<and> sessionStorage installedState ''offline_test-shop.myshopify.com'' = Some storedSession
   \<and> isActive (now (api (testParams True False (Inl (Err CookieNotFound)))))
        (scopes (config (testParams True False (Inl (Err CookieNotFound))))) storedSession
   \<and> authenticateAdmin (testParams True False (Inl (Err CookieNotFound)))
        (testRequest ''/auth'' [(''shop'', TEST_SHOP)] [(''authorization'', ''valid-token'')]) installedState =
      (Inl (Resp (redirect ''https://test-shop.myshopify.com/admin/oauth/authorize'')),
       installedState\<lparr>trace := [EvBeginAuth (Some TEST_SHOP) False]\<rparr>)"
proof -
  let ?p = "testParams True False (Inl (Err CookieNotFound))"
  let ?rq = "testRequest ''/auth'' [(''shop'', TEST_SHOP)] [(''authorization'', ''valid-token'')]"
  have b: "handleBouncePageRoute ?p ?rq = succeed ()"
    by (simp add: handleBouncePageRoute_def fixture_defs)
  have x: "handleExitIframeRoute ?p ?rq = succeed ()"
    by (simp add: handleExitIframeRoute_def fixture_defs)
  have s: "sanitizeShop (api ?p) (searchParams_get ?rq ''shop'') = Some TEST_SHOP"
    using sanitize_TEST_SHOP by (simp add: testParams_def testApi_def testRequest_def searchParams_get_def)
  have p1: "pathname ?rq = path (auth (config ?p))"
    by (simp add: fixture_defs)
  have ne: "TEST_SHOP \<noteq> []"
    by (simp add: TEST_SHOP_def)
  have o: "handleOAuthRoutes ?p ?rq = handleAuthBeginRequest ?p ?rq TEST_SHOP"
    by (simp add: handleOAuthRoutes_def s p1 ne)
  have h: "handleRoutes ?p ?rq installedState =
      (Inl (Resp (redirect ''https://test-shop.myshopify.com/admin/oauth/authorize'')),
       installedState\<lparr>trace := [EvBeginAuth (Some TEST_SHOP) False]\<rparr>)"
    by (simp add: handleRoutes_def b x o bnd_succeed handleAuthBeginRequest_throws)
       (simp add: fixture_defs headers_get_def)
  have a: "authenticateAndGetSessionContext ?p ?rq installedState =
      (Inl (Resp (redirect ''https://test-shop.myshopify.com/admin/oauth/authorize'')),
       installedState\<lparr>trace := [EvBeginAuth (Some TEST_SHOP) False]\<rparr>)"
    by (simp add: authenticateAndGetSessionContext_def bnd_def h)
  have rb: "rejectBotRequest (helpers ?p) ?rq = None"
    by (simp add: testParams_def testHelpers_def)
  have ro: "respondToOptionsRequest (helpers ?p) ?rq = None"
    by (simp add: testParams_def testHelpers_def)
  have cors: "ensureCORSHeaders (helpers ?p) ?rq r = r" for r
    by (simp add: testParams_def testHelpers_def)
  have "authenticateAdmin ?p ?rq installedState =
      (Inl (Resp (redirect ''https://test-shop.myshopify.com/admin/oauth/authorize'')),
       installedState\<lparr>trace := [EvBeginAuth (Some TEST_SHOP) False]\<rparr>)"
    by (simp add: authenticateAdmin_def try_catch_def a bnd_def guard_def succeed_def throw_def
          rb ro cors)
  then show ?thesis
    by (simp add: isActive_def fixture_defs)
qed

lemma validateUrlParams_invalid:
  assumes "isEmbeddedApp (config p)"
    and "\<not> truthy (sanitizeShop (api p) (searchParams_get rq ''shop''))
         \<or> (sanitizeHost (api p) (searchParams_get rq ''host'') = Inr h \<and> \<not> truthy h)"
  shows "validateUrlParams p rq st = (Inl (Resp (redirect (loginPath (auth (config p))))), st)"
  using assms by (auto simp: validateUrlParams_def throw_def)

text \<open>
  The call of the host sanitizer is not guarded: when the sanitizer throws on a host that
  passes the shop check, the error leaves \<open>validateUrlParams\<close> as it is.
\<close>

lemma validateUrlParams_host_throws:
  assumes "isEmbeddedApp (config p)"
    and "truthy (sanitizeShop (api p) (searchParams_get rq ''shop''))"
    and "sanitizeHost (api p) (searchParams_get rq ''host'') = Inl e"
  shows "validateUrlParams p rq st = (Inl (Err e), st)"
  using assms by (simp add: validateUrlParams_def throw_def)

text \<open>
  Claim C7, as amended. Under an embedded configuration, a request that passes the route
  dispatch without a session token header and whose shop parameter the sanitizer rejects
  (missing or invalid), or whose host parameter the host sanitizer answers with its null
  result, is redirected to the login path: this is the outcome of \<open>validateUrlParams\<close> and
  of the engine, with status 302, and the state is the one the route dispatch left, so
  OAuth was not begun.
\<close>

theorem invalid_url_params_redirect_to_login:
  assumes "isEmbeddedApp (config p)"
    and "handleRoutes p rq st = (Inr (), st')"
    and "\<not> truthy (getSessionTokenHeader (helpers p) rq)"
    and "\<not> truthy (sanitizeShop (api p) (searchParams_get rq ''shop''))
         \<or> (sanitizeHost (api p) (searchParams_get rq ''host'') = Inr h \<and> \<not> truthy h)"
  shows "validateUrlParams p rq st' = (Inl (Resp (redirect (loginPath (auth (config p))))), st')
       \<and> authenticateAndGetSessionContext p rq st =
           (Inl (Resp (redirect (loginPath (auth (config p))))), st')
       \<and> thrownStatus (authenticateAndGetSessionContext p rq st) = Some 302"
proof -
  have v: "validateUrlParams p rq st' = (Inl (Resp (redirect (loginPath (auth (config p))))), st')"
    using assms(1,4) by (rule validateUrlParams_invalid)
  have "authenticateAndGetSessionContext p rq st =
           (Inl (Resp (redirect (loginPath (auth (config p))))), st')"
    using assms(3) by (simp add: authenticateAndGetSessionContext_def bnd_def assms(2) v)
  with v show ?thesis
    by (simp add: thrownStatus_def redirect_def)
qed

theorem invalid_url_params_redirect_to_login_witness:
  "authenticateAndGetSessionContext (testParams True False (Inl (Err CookieNotFound)))
     (testRequest ''/app'' [(''shop'', ''not a shop'')] []) emptyState =
   (Inl (Resp (redirect ''/auth/login'')), emptyState)
   \<and> truthy (sanitizeShop (api (testParams True False (Inl (Err CookieNotFound))))
        (searchParams_get (testRequest ''/app'' [(''shop'', TEST_SHOP)] []) ''shop''))
   \<and> authenticateAndGetSessionContext (testParams True False (Inl (Err CookieNotFound)))
     (testRequest ''/app'' [(''shop'', TEST_SHOP)] []) emptyState =
   (Inl (Resp (redirect ''/auth/login'')), emptyState)"
proof -
  let ?p = "testParams True False (Inl (Err CookieNotFound))"
  let ?rq = "testRequest ''/app'' [(''shop'', ''not a shop'')] []"
  let ?nohost = "testRequest ''/app'' [(''shop'', TEST_SHOP)] []"
  have e: "isEmbeddedApp (config ?p)"
    by (simp add: fixture_defs)
  have l: "loginPath (auth (config ?p)) = ''/auth/login''"
    by (simp add: testParams_def testConfig_def testPaths_def)
  have r: "handleRoutes ?p ?rq emptyState = (Inr (), emptyState)"
    by (rule handleRoutes_no_match) (simp_all add: fixture_defs)
  have h: "\<not> truthy (getSessionTokenHeader (helpers ?p) ?rq)"
    by (simp add: fixture_defs)
  have i: "\<not> truthy (sanitizeShop (api ?p) (searchParams_get ?rq ''shop''))
         \<or> (sanitizeHost (api ?p) (searchParams_get ?rq ''host'') = Inr None \<and> \<not> truthy None)"
    by (simp add: fixture_defs searchParams_get_def sanitizeShop_spec_def canonicalSuffix_def)
  have r': "handleRoutes ?p ?nohost emptyState = (Inr (), emptyState)"
    by (rule handleRoutes_no_match) (simp_all add: fixture_defs)
  have h': "\<not> truthy (getSessionTokenHeader (helpers ?p) ?nohost)"
    by (simp add: fixture_defs)
  have s': "truthy (sanitizeShop (api ?p) (searchParams_get ?nohost ''shop''))"
    using sanitize_TEST_SHOP
    by (simp add: testParams_def testApi_def testRequest_def searchParams_get_def TEST_SHOP_def)
  have "sanitizeHost (api ?p) (searchParams_get ?nohost ''host'') = Inr None \<and> \<not> truthy None"
    by (simp add: testParams_def testApi_def testRequest_def searchParams_get_def)
  then have i': "\<not> truthy (sanitizeShop (api ?p) (searchParams_get ?nohost ''shop''))
         \<or> (sanitizeHost (api ?p) (searchParams_get ?nohost ''host'') = Inr None \<and> \<not> truthy None)"
    by (rule disjI2)
  have "authenticateAndGetSessionContext ?p ?rq emptyState =
           (Inl (Resp (redirect ''/auth/login'')), emptyState)"
    using invalid_url_params_redirect_to_login [OF e r h i] l by simp
  moreover have "authenticateAndGetSessionContext ?p ?nohost emptyState =
           (Inl (Resp (redirect ''/auth/login'')), emptyState)"
    using invalid_url_params_redirect_to_login [OF e r' h' i'] l by simp
  ultimately show ?thesis using s' by simp
qed

text \<open>
  Claim C7 as stated fails under a non-embedded configuration, where \<open>validateUrlParams\<close>
  checks nothing: a request without a shop parameter and without a session cookie goes on
  to the installation check and ends with the 400 response, not with the login redirect.
\<close>

theorem url_params_unchecked_counterexample:
  "\<not> isEmbeddedApp (config (testParams False False (Inl (Err CookieNotFound))))
   \<and> \<not> truthy (getSessionTokenHeader (helpers (testParams False False (Inl (Err CookieNotFound))))
           (testRequest ''/app'' [] []))
   \<and> searchParams_get (testRequest ''/app'' [] []) ''shop'' = None
   \<and> validateUrlParams (testParams False False (Inl (Err CookieNotFound)))
        (testRequest ''/app'' [] []) emptyState = (Inr (), emptyState)
   \<and> authenticateAndGetSessionContext (testParams False False (Inl (Err CookieNotFound)))
        (testRequest ''/app'' [] []) emptyState =
      (Inl (Resp (newResponse None 400 ''Bad Request'')), emptyState)"
proof -
  let ?p = "testParams False False (Inl (Err CookieNotFound))"
  let ?rq = "testRequest ''/app'' [] []"
  have e: "\<not> isEmbeddedApp (config ?p)"
    by (simp add: fixture_defs)
  have r: "handleRoutes ?p ?rq emptyState = (Inr (), emptyState)"
    by (rule handleRoutes_no_match) (simp_all add: fixture_defs)
  have h: "\<not> truthy (getSessionTokenHeader (helpers ?p) ?rq)"
    by (simp add: fixture_defs)
  have n: "searchParams_get ?rq ''shop'' = None"
    by (simp add: testRequest_def searchParams_get_def)
  have v: "validateUrlParams ?p ?rq emptyState = (Inr (), emptyState)"
    using e by (simp add: validateUrlParams_def succeed_def)
  have c: "getCurrentId (api ?p) False ?rq = None"
    by (simp add: testParams_def testApi_def)
  have t: "getOfflineToken ?p ?rq emptyState = (Inl (Resp (newResponse None 400 ''Bad Request'')), emptyState)"
    by (simp add: getOfflineToken_def n c throw_def)
  have i: "ensureInstalledOnShop ?p ?rq emptyState = (Inl (Resp (newResponse None 400 ''Bad Request'')), emptyState)"
    by (simp add: ensureInstalledOnShop_def bnd_def t)
  have "authenticateAndGetSessionContext ?p ?rq emptyState =
      (Inl (Resp (newResponse None 400 ''Bad Request'')), emptyState)"
    using h by (simp add: authenticateAndGetSessionContext_def bnd_def r v i)
  with e h n v show ?thesis by simp
qed

section \<open>The login helper\<close>











lemma normalize_test_shop:
  assumes "sanitizeShop (api p) = sanitizeShop_spec"
  shows "normalizeShop p ''test-shop'' = Some ''test-shop.myshopify.com''"
  using assms
  by (simp add: normalizeShop_def shopWithDomain_def stripProtocol_def sanitizeShop_spec_def
        canonicalSuffix_def labelChar_def)

text \<open>
  When the form body has been read and carries no shop, a query of \<open>shop=test-shop\<close> is
  answered with a redirect to the app's page in the store's admin.
\<close>

lemma login_test_shop_admin_redirect:
  assumes "sanitizeShop (api p) = sanitizeShop_spec"
    and "formData rq = Some form" and "\<not> truthy (map_of form ''shop'')"
    and "searchParams_get rq ''shop'' = Some ''test-shop''"
  shows "login p rq = Inl (Resp (redirect (''https://admin.shopify.com/store/test-shop/apps/'' @ apiKey (config p))))"
  using assms(2-4) normalize_test_shop [OF assms(1)]
  by (simp add: login_def loginShop_def)

text \<open>
  Claim C8 fails on the code. The claim has a GET of the login path with \<open>shop=test-shop\<close>
  under a non-embedded configuration answered by a 302 redirect to
  \<open>/auth?shop=test-shop.myshopify.com\<close>. The helper awaits the form body of every request:
  on a GET without a body that read rejects and the helper ends with a thrown
  \<open>TypeError\<close>; and where the body can be read, the Location it builds is the store's admin
  URL, not the begin path.
\<close>

theorem login_plain_get_diverges:
  "\<not> isEmbeddedApp (config (testParams False False (Inl (Err CookieNotFound))))
   \<and> login (testParams False False (Inl (Err CookieNotFound)))
        (plainGet ''/auth/login'' [(''shop'', ''test-shop'')]) = Inl (Err TypeError)
   \<and> login (testParams False False (Inl (Err CookieNotFound)))
        (testRequest ''/auth/login'' [(''shop'', ''test-shop'')] []) =
      Inl (Resp (redirect ''https://admin.shopify.com/store/test-shop/apps/testApiKey''))
   \<and> redirect ''https://admin.shopify.com/store/test-shop/apps/testApiKey''
        \<noteq> redirect ''/auth?shop=test-shop.myshopify.com''"
proof -
  let ?p = "testParams False False (Inl (Err CookieNotFound))"
  let ?rq = "testRequest ''/auth/login'' [(''shop'', ''test-shop'')] []"
  have a: "sanitizeShop (api ?p) = sanitizeShop_spec"
    by (simp add: testParams_def testApi_def)
  have f: "formData ?rq = Some []" and t: "\<not> truthy (map_of [] ''shop'')"
    and q: "searchParams_get ?rq ''shop'' = Some ''test-shop''"
    by (simp_all add: testRequest_def searchParams_get_def)
  have "login ?p ?rq = Inl (Resp (redirect ''https://admin.shopify.com/store/test-shop/apps/testApiKey''))"
    using login_test_shop_admin_redirect [OF a f t q]
    by (simp add: testParams_def testConfig_def)
  moreover have "login ?p (plainGet ''/auth/login'' [(''shop'', ''test-shop'')]) = Inl (Err TypeError)"
    by (simp add: login_def plainGet_def)
  ultimately show ?thesis
    by (simp add: testParams_def testConfig_def redirect_def)
qed

section \<open>The missing-token branch\<close>

lemma getAuthenticatedSession_no_token:
  assumes "isEmbeddedApp (config p)"
    and "\<not> truthy (getSessionTokenHeader (helpers p) rq)"
    and "\<not> truthy (getSessionTokenFromUrlParam rq)"
  shows "getAuthenticatedSession p rq st = (Inl (Err ShopifyError), st)"
  using assms by (simp add: getAuthenticatedSession_def throw_def)

lemma loadSessionContext_returns:
  "\<exists>r. loadSessionContext sh sid payload st = (Inr r, st)"
  by (cases sid) (simp_all add: loadSessionContext_def loadSession_def bnd_def succeed_def)

lemma getAuthenticatedSession_not_ShopifyError:
  assumes "\<not> isEmbeddedApp (config p) \<or> truthy (getSessionTokenFromUrlParam rq)"
  shows "fst (getAuthenticatedSession p rq st) \<noteq> Inl (Err ShopifyError)"
proof (cases "isEmbeddedApp (config p)")
  case False
  then have "getAuthenticatedSession p rq st =
      loadSessionContext (searchParams_get rq ''shop'')
        (getCurrentId (api p) (useOnlineTokens (config p)) rq) None st"
    by (simp add: getAuthenticatedSession_def)
  with loadSessionContext_returns show ?thesis
    by (metis Inl_Inr_False fst_conv)
next
  case True
  define tokv where "tokv = (if truthy (getSessionTokenHeader (helpers p) rq)
       then getSessionTokenHeader (helpers p) rq else getSessionTokenFromUrlParam rq)"
  from True assms have tr: "truthy tokv"
    by (simp add: tokv_def)
  then obtain tok where tok: "tokv = Some tok"
    by (cases tokv) auto
  have g: "getAuthenticatedSession p rq st =
      bnd (lift (case validateSessionToken (helpers p) tok of
                   Inl r \<Rightarrow> Inl (Resp r) | Inr payload \<Rightarrow> Inr payload))
        (\<lambda>payload.
           bnd (getShopFromSessionToken p payload)
             (\<lambda>sh. loadSessionContext (Some sh)
                      (Some (if useOnlineTokens (config p)
                             then getJwtSessionId (api p) sh (sub payload)
                             else getOfflineId (api p) sh))
                      (Some payload))) st"
    using True tr tok unfolding getAuthenticatedSession_def tokv_def [symmetric] Let_def
    by simp
  show ?thesis
  proof (cases "validateSessionToken (helpers p) tok")
    case (Inl r)
    with g show ?thesis by (simp add: bnd_lift_Inl)
  next
    case (Inr payload)
    show ?thesis
    proof (cases "urlHostname (helpers p) (dest payload)")
      case None
      with g Inr show ?thesis
        by (simp add: bnd_lift_Inr getShopFromSessionToken_def bnd_throw)
    next
      case (Some sh)
      with g Inr have "getAuthenticatedSession p rq st =
          loadSessionContext (Some sh)
            (Some (if useOnlineTokens (config p)
                   then getJwtSessionId (api p) sh (sub payload)
                   else getOfflineId (api p) sh))
            (Some payload) st"
        by (simp add: bnd_lift_Inr getShopFromSessionToken_def bnd_succeed)
      with loadSessionContext_returns show ?thesis
        by (metis Inl_Inr_False fst_conv)
    qed
  qed
qed

lemma redirectToAuthPage_throws:
  "redirectToAuthPage p rq sh st =
     (Inl (Resp (authPageResponse (helpers p) rq sh)), st\<lparr>trace := trace st @ [EvAuthPage sh]\<rparr>)"
  by (simp add: redirectToAuthPage_def bnd_emit throw_def)

lemma ensureSessionExists_not_ShopifyError:
  assumes "fst (getAuthenticatedSession p rq st) \<noteq> Inl (Err ShopifyError)"
  shows "fst (ensureSessionExists p rq st) \<noteq> Inl (Err ShopifyError)"
proof -
  obtain r st1 where g: "getAuthenticatedSession p rq st = (r, st1)"
    by (cases "getAuthenticatedSession p rq st") auto
  show ?thesis
  proof (cases r)
    case (Inl t)
    with g assms show ?thesis
      by (simp add: ensureSessionExists_def bnd_def)
  next
    case (Inr a)
    obtain sh ctx where a: "a = (sh, ctx)" by (cases a) auto
    show ?thesis
    proof (cases ctx)
      case None
      with g Inr a show ?thesis
        by (simp add: ensureSessionExists_def bnd_def redirectToAuthPage_throws)
    next
      case (Some c)
      obtain s tok where c: "c = (s, tok)" by (cases c) auto
      with g Inr a Some show ?thesis
        by (simp add: ensureSessionExists_def bnd_def redirectToAuthPage_throws succeed_def)
    qed
  qed
qed

lemma ensureSessionTokenSearchParam_passed:
  assumes "ensureSessionTokenSearchParamIfRequired p rq st0 = (Inr (), st1)"
  shows "\<not> api_isEmbeddedApp (api p) \<or> truthy (searchParams_get rq ''id_token'')"
  using assms
  by (auto simp: ensureSessionTokenSearchParamIfRequired_def redirectToBouncePage_def Let_def
        throw_def split: if_splits)

text \<open>
  Claim C10. \<open>getAuthenticatedSession\<close> throws the bare \<open>ShopifyError\<close> when the app is
  embedded and neither the header nor the \<open>id_token\<close> parameter carries a session token.
  When \<open>api.config.isEmbeddedApp\<close> agrees with \<open>config.isEmbeddedApp\<close> and
  \<open>ensureSessionTokenSearchParamIfRequired\<close> has returned normally on the request,
  \<open>ensureSessionExists\<close> on that request never ends with that error.
\<close>

theorem shopifyError_branch_guarded:
  "(isEmbeddedApp (config p) \<and> \<not> truthy (getSessionTokenHeader (helpers p) rq)
      \<and> \<not> truthy (getSessionTokenFromUrlParam rq) \<longrightarrow>
      getAuthenticatedSession p rq st = (Inl (Err ShopifyError), st))
   \<and> (api_isEmbeddedApp (api p) = isEmbeddedApp (config p)
      \<and> ensureSessionTokenSearchParamIfRequired p rq st0 = (Inr (), st1) \<longrightarrow>
      fst (ensureSessionExists p rq st) \<noteq> Inl (Err ShopifyError))"
proof (intro conjI impI)
  assume "isEmbeddedApp (config p) \<and> \<not> truthy (getSessionTokenHeader (helpers p) rq)
      \<and> \<not> truthy (getSessionTokenFromUrlParam rq)"
  then show "getAuthenticatedSession p rq st = (Inl (Err ShopifyError), st)"
    by (simp add: getAuthenticatedSession_no_token)
next
  assume h: "api_isEmbeddedApp (api p) = isEmbeddedApp (config p)
      \<and> ensureSessionTokenSearchParamIfRequired p rq st0 = (Inr (), st1)"
  then have "\<not> api_isEmbeddedApp (api p) \<or> truthy (searchParams_get rq ''id_token'')"
    using ensureSessionTokenSearchParam_passed by blast
  with h have "\<not> isEmbeddedApp (config p) \<or> truthy (getSessionTokenFromUrlParam rq)"
    by (simp add: getSessionTokenFromUrlParam_def)
  then have "fst (getAuthenticatedSession p rq st) \<noteq> Inl (Err ShopifyError)"
    by (rule getAuthenticatedSession_not_ShopifyError)
  then show "fst (ensureSessionExists p rq st) \<noteq> Inl (Err ShopifyError)"
    by (rule ensureSessionExists_not_ShopifyError)
qed

theorem shopifyError_branch_guarded_witness:
  "getAuthenticatedSession (testParams True False (Inl (Err CookieNotFound)))
     (testRequest ''/app'' [] []) emptyState = (Inl (Err ShopifyError), emptyState)
   \<and> fst (ensureSessionExists (testParams True False (Inl (Err CookieNotFound)))
        (testRequest ''/app'' [(''id_token'', ''valid-token'')] []) installedState)
      \<noteq> Inl (Err ShopifyError)"
proof -
  let ?p = "testParams True False (Inl (Err CookieNotFound))"
  let ?bare = "testRequest ''/app'' [] []"
  let ?rq = "testRequest ''/app'' [(''id_token'', ''valid-token'')] []"
  have a: "isEmbeddedApp (config ?p) \<and> \<not> truthy (getSessionTokenHeader (helpers ?p) ?bare)
      \<and> \<not> truthy (getSessionTokenFromUrlParam ?bare)"
    by (simp add: fixture_defs getSessionTokenFromUrlParam_def searchParams_get_def)
  have b: "api_isEmbeddedApp (api ?p) = isEmbeddedApp (config ?p)
      \<and> ensureSessionTokenSearchParamIfRequired ?p ?rq installedState = (Inr (), installedState)"
    by (simp add: ensureSessionTokenSearchParamIfRequired_def succeed_def testParams_def
          testApi_def testConfig_def testRequest_def searchParams_get_def)
  have "getAuthenticatedSession ?p ?bare emptyState = (Inl (Err ShopifyError), emptyState)"
    using shopifyError_branch_guarded [of ?p ?bare emptyState] a by blast
  moreover have "fst (ensureSessionExists ?p ?rq installedState) \<noteq> Inl (Err ShopifyError)"
    using shopifyError_branch_guarded [of ?p ?rq installedState installedState installedState] b by blast
  ultimately show ?thesis by simp
qed

end
